theory Spec2Isabelle
  imports Complex_Main
begin

section \<open>Conventions of the embedding\<close>

text \<open>
  The development follows \<^verbatim>\<open>ProcessOptimizer/model_systems/model_system.py\<close>
  and the noise-model tests in \<^verbatim>\<open>ProcessOptimizer/tests/test_noise_model.py\<close>.

  \<^item> Python floats are read as \<^typ>\<open>real\<close>: the properties below concern which
    function is applied to which argument, not rounding.
  \<^item> The pseudo-random generator is global state outside every object
    (\<^verbatim>\<open>np.random\<close>). It is threaded explicitly: a computation that may draw
    takes a generator state of type \<open>'r\<close> and returns the state it leaves behind.
  \<^item> A raised exception is a value \<open>Inl e\<close> of a sum type.
  \<^item> Points of the parameter space have type \<open>'x\<close>; the score function is the
    deterministic callable \<open>'x \<Rightarrow> real\<close> handed to the constructor.
\<close>

datatype error =
    ConfigurationError
  | InstantiationError
  | ValueError
  | ExternalError

type_synonym 'r sampler = "'r \<Rightarrow> real \<times> 'r"

section \<open>The model system\<close>

text \<open>
  The object built by \<^verbatim>\<open>ModelSystem.__init__\<close>. The type of the stored noise
  model is a parameter \<open>'nm\<close>, because the module that declares the noise-model
  classes is imported by \<^verbatim>\<open>model_system.py\<close> and not part of it.
\<close>

record ('x, 'sp, 'nm) ModelSystem =
  score :: "'x \<Rightarrow> real"
  space :: "'sp"
  noise_model :: "'nm"
  true_min :: real
  true_max :: real

text \<open>
  The parameter-space library used by the constructor: \<^verbatim>\<open>space_factory\<close>,
  the attribute \<^verbatim>\<open>n_dims\<close> and the method \<^verbatim>\<open>lhs\<close> of a space. Latin
  hypercube sampling may draw from the generator, so \<open>lhs\<close> passes the state on.
\<close>

record ('sd, 'sp, 'x, 'r) space_lib =
  space_factory :: "'sd \<Rightarrow> error + 'sp"
  n_dims :: "'sp \<Rightarrow> nat"
  lhs :: "'sp \<Rightarrow> nat \<Rightarrow> 'r \<Rightarrow> 'x list \<times> 'r"

text \<open>
  \<^verbatim>\<open>np.min\<close> and \<^verbatim>\<open>np.max\<close> of a Python list: the least and the greatest
  element, and \<^verbatim>\<open>ValueError\<close> on an empty list (a reduction with no identity).
\<close>

definition np_min :: "real list \<Rightarrow> error + real" where
  "np_min xs = (case xs of [] \<Rightarrow> Inl ValueError | x # ys \<Rightarrow> Inr (fold min ys x))"

definition np_max :: "real list \<Rightarrow> error + real" where
  "np_max xs = (case xs of [] \<Rightarrow> Inl ValueError | x # ys \<Rightarrow> Inr (fold max ys x))"

text \<open>
  \<^verbatim>\<open>ModelSystem.__init__(score, space, noise_model, true_min=None, true_max=None)\<close>.
  The statements run in the order of the source: the space is normalised, the noise
  specification is parsed (by \<open>parse\<close>, the imported \<^verbatim>\<open>parse_noise_model\<close>), then
  each bound that is \<^verbatim>\<open>None\<close> is estimated from its own call of \<^verbatim>\<open>lhs\<close>.
\<close>

definition ModelSystem_init ::
  "('sd, 'sp, 'x, 'r) space_lib \<Rightarrow> ('ns \<Rightarrow> error + 'nm) \<Rightarrow>
   ('x \<Rightarrow> real) \<Rightarrow> 'sd \<Rightarrow> 'ns \<Rightarrow> real option \<Rightarrow> real option \<Rightarrow> 'r \<Rightarrow>
   (error + ('x, 'sp, 'nm) ModelSystem) \<times> 'r" where
  "ModelSystem_init lib parse sc space_def nm_spec tmin tmax r =
     (case space_factory lib space_def of
        Inl e \<Rightarrow> (Inl e, r)
      | Inr sp \<Rightarrow>
     (case parse nm_spec of
        Inl e \<Rightarrow> (Inl e, r)
      | Inr nm \<Rightarrow>
     (case (case tmin of
              None \<Rightarrow>
                (let ndims = n_dims lib sp;
                     (points, r1) = lhs lib sp (ndims * 10) r;
                     scores = map sc points
                 in (np_min scores, r1))
            | Some v \<Rightarrow> (Inr v, r)) of
        (Inl e, r1) \<Rightarrow> (Inl e, r1)
      | (Inr mn, r1) \<Rightarrow>
     (case (case tmax of
              None \<Rightarrow>
                (let ndims = n_dims lib sp;
                     (points, r2) = lhs lib sp (ndims * 10) r1;
                     scores = map sc points
                 in (np_max scores, r2))
            | Some v \<Rightarrow> (Inr v, r1)) of
        (Inl e, r2) \<Rightarrow> (Inl e, r2)
      | (Inr mx, r2) \<Rightarrow>
          (Inr \<lparr>score = sc, space = sp, noise_model = nm,
                true_min = mn, true_max = mx\<rparr>, r2)))))"

text \<open>
  \<^verbatim>\<open>result_loss(self, result)\<close>. The library function \<^verbatim>\<open>expected_minimum\<close>
  is a parameter \<open>em\<close>; it returns a location and a value, of which the value is
  dropped. It is given the generator state because the library is free to draw.
\<close>

definition result_loss ::
  "('res \<Rightarrow> 'r \<Rightarrow> ('x \<times> real) \<times> 'r) \<Rightarrow> ('x, 'sp, 'nm) ModelSystem \<Rightarrow> 'res \<Rightarrow> 'r \<Rightarrow> real \<times> 'r" where
  "result_loss em ms result r =
     (let ((model_x, _), r') = em result r;
          loss = score ms model_x - true_min ms
      in (loss, r'))"

text \<open>
  \<^verbatim>\<open>get_score(self, X)\<close>: the source returns
  \<^verbatim>\<open>Y + self.noise_model.get_noise(X, Y)\<close>. The method \<^verbatim>\<open>get_noise\<close> of the
  stored noise model is the parameter \<open>gn\<close>.
\<close>

definition get_score ::
  "('nm \<Rightarrow> 'x \<Rightarrow> real \<Rightarrow> 'r \<Rightarrow> real \<times> 'r) \<Rightarrow> ('x, 'sp, 'nm) ModelSystem \<Rightarrow> 'x \<Rightarrow> 'r \<Rightarrow> real \<times> 'r" where
  "get_score gn ms X r =
     (let Y = score ms X;
          (noise, r') = gn (noise_model ms) X Y r
      in (Y + noise, r'))"

text \<open>
  \<^verbatim>\<open>set_noise_model(self, noise_model)\<close>: one assignment, of the parsed
  specification. When parsing raises, the assignment does not happen.
\<close>

definition set_noise_model ::
  "('ns \<Rightarrow> error + 'nm) \<Rightarrow> 'ns \<Rightarrow> ('x, 'sp, 'nm) ModelSystem \<Rightarrow> error + ('x, 'sp, 'nm) ModelSystem" where
  "set_noise_model parse nm_spec ms =
     (case parse nm_spec of
        Inl e \<Rightarrow> Inl e
      | Inr nm \<Rightarrow> Inr (ms\<lparr>noise_model := nm\<rparr>))"

section \<open>The noise models\<close>

text \<open>
  Modelled from the spec: the module \<^verbatim>\<open>model_systems/noise_models.py\<close> is
  imported by both source files and is not among them. The variants of a noise model
  are those of the spec's data model: Zero (stateless), Additive and Multiplicative
  (each owning a sampling function of no arguments, which draws from the external
  generator), DataDependent (owning a selector from the evaluation context to a
  noise model).
\<close>

datatype ('x, 'r) NoiseModel =
    ZeroNoise
  | AdditiveNoise "'r sampler"
  | MultiplicativeNoise "'r sampler"
  | DataDependentNoise "'x \<Rightarrow> ('x, 'r) NoiseModel"

text \<open>
  Modelled from the spec: \<^verbatim>\<open>apply(context, signal)\<close>, the method missing with
  \<^verbatim>\<open>noise_models.py\<close>. Zero is the identity, Additive is
  \<^verbatim>\<open>signal + sample()\<close>, Multiplicative is \<^verbatim>\<open>signal * (1 + sample())\<close>,
  DataDependent calls its selector on the context and delegates to the model returned.
\<close>

primrec NoiseModel_apply :: "('x, 'r) NoiseModel \<Rightarrow> 'x \<Rightarrow> real \<Rightarrow> 'r \<Rightarrow> real \<times> 'r" where
  "NoiseModel_apply ZeroNoise X signal r = (signal, r)"
| "NoiseModel_apply (AdditiveNoise sample) X signal r =
     (case sample r of (n, r') \<Rightarrow> (signal + n, r'))"
| "NoiseModel_apply (MultiplicativeNoise sample) X signal r =
     (case sample r of (n, r') \<Rightarrow> (signal * (1 + n), r'))"
| "NoiseModel_apply (DataDependentNoise selector) X signal r =
     NoiseModel_apply (selector X) X signal r"

text \<open>
  The values a keyword argument or a configuration mapping may hold: a number, a
  string, a sampling function, a selector.
\<close>

datatype ('x, 'r) kwarg =
    Num real
  | Txt string
  | Fn "'r sampler"
  | Sel "'x \<Rightarrow> ('x, 'r) NoiseModel"

text \<open>
  The classes of \<^verbatim>\<open>noise_models.py\<close> that the tests import: the abstract
  \<^verbatim>\<open>NoiseModel\<close> and its four concrete variants.
\<close>

datatype noise_class =
    NoiseModel_class
  | ZeroNoise_class
  | AdditiveNoise_class
  | MultiplicativeNoise_class
  | DataDependentNoise_class

text \<open>
  Modelled from the spec: the sampling function of an Additive or Multiplicative model,
  missing with \<^verbatim>\<open>noise_models.py\<close>. A sampling function given as
  \<^verbatim>\<open>noise_dist\<close> is owned as it is; otherwise the default is a draw from a
  zero-mean normal distribution whose spread is \<^verbatim>\<open>noise_size\<close>, or the variant's
  default spread. \<open>normal mean spread\<close> is the library's normal draw. A value of the
  wrong kind is malformed configuration.
\<close>

fun sampler_of ::
  "(real \<Rightarrow> real \<Rightarrow> 'r sampler) \<Rightarrow> real \<Rightarrow> (string \<rightharpoonup> ('x, 'r) kwarg) \<Rightarrow> error + 'r sampler" where
  "sampler_of normal dflt kw =
     (case kw ''noise_dist'' of
        Some (Fn d) \<Rightarrow> Inr d
      | Some (Num _) \<Rightarrow> Inl ConfigurationError
      | Some (Txt _) \<Rightarrow> Inl ConfigurationError
      | Some (Sel _) \<Rightarrow> Inl ConfigurationError
      | None \<Rightarrow>
          (case kw ''noise_size'' of
             Some (Num s) \<Rightarrow> Inr (normal 0 s)
           | Some (Txt _) \<Rightarrow> Inl ConfigurationError
           | Some (Fn _) \<Rightarrow> Inl ConfigurationError
           | Some (Sel _) \<Rightarrow> Inl ConfigurationError
           | None \<Rightarrow> Inr (normal 0 dflt)))"

text \<open>
  Modelled from the spec: the constructors of the noise-model classes, missing with
  \<^verbatim>\<open>noise_models.py\<close>. Constructing the abstract capability fails with
  \<^verbatim>\<open>InstantiationError\<close>; the default spread is 1 for Additive and 0.01 for
  Multiplicative; a DataDependent model needs its selector \<^verbatim>\<open>noise_models\<close>.
\<close>

fun new_NoiseModel ::
  "(real \<Rightarrow> real \<Rightarrow> 'r sampler) \<Rightarrow> noise_class \<Rightarrow> (string \<rightharpoonup> ('x, 'r) kwarg) \<Rightarrow>
   error + ('x, 'r) NoiseModel" where
  "new_NoiseModel normal NoiseModel_class kw = Inl InstantiationError"
| "new_NoiseModel normal ZeroNoise_class kw = Inr ZeroNoise"
| "new_NoiseModel normal AdditiveNoise_class kw =
     (case sampler_of normal 1 kw of
        Inl e \<Rightarrow> Inl e
      | Inr d \<Rightarrow> Inr (AdditiveNoise d))"
| "new_NoiseModel normal MultiplicativeNoise_class kw =
     (case sampler_of normal (1 / 100) kw of
        Inl e \<Rightarrow> Inl e
      | Inr d \<Rightarrow> Inr (MultiplicativeNoise d))"
| "new_NoiseModel normal DataDependentNoise_class kw =
     (case kw ''noise_models'' of
        Some (Sel f) \<Rightarrow> Inr (DataDependentNoise f)
      | Some (Num _) \<Rightarrow> Inl ConfigurationError
      | Some (Txt _) \<Rightarrow> Inl ConfigurationError
      | Some (Fn _) \<Rightarrow> Inl ConfigurationError
      | None \<Rightarrow> Inl ConfigurationError)"

text \<open>
  What a caller may hand over as a noise specification: a noise model, a name, a
  configuration mapping, or any other Python value.
\<close>

datatype ('x, 'r) noise_spec =
    Instance "('x, 'r) NoiseModel"
  | Name string
  | Mapping "string \<rightharpoonup> ('x, 'r) kwarg"
  | Other

text \<open>
  Modelled from the spec: the recognised model-type names of the parser, missing with
  \<^verbatim>\<open>noise_models.py\<close>.
\<close>

definition name_class :: "string \<Rightarrow> noise_class option" where
  "name_class s =
     (if s = ''constant'' then Some AdditiveNoise_class
      else if s = ''proportional'' then Some MultiplicativeNoise_class
      else if s = ''zero'' then Some ZeroNoise_class
      else None)"

text \<open>
  Modelled from the spec: \<^verbatim>\<open>parse_noise_model(spec)\<close>, missing with
  \<^verbatim>\<open>noise_models.py\<close>. A noise model passes through; a recognised name
  constructs its variant with default parameters; a mapping with a
  \<^verbatim>\<open>model_type\<close> key constructs the named variant from the other keys; anything
  else is a \<^verbatim>\<open>ConfigurationError\<close>.
\<close>

fun parse_noise_model ::
  "(real \<Rightarrow> real \<Rightarrow> 'r sampler) \<Rightarrow> ('x, 'r) noise_spec \<Rightarrow> error + ('x, 'r) NoiseModel" where
  "parse_noise_model normal (Instance nm) = Inr nm"
| "parse_noise_model normal (Name s) =
     (case name_class s of
        None \<Rightarrow> Inl ConfigurationError
      | Some c \<Rightarrow> new_NoiseModel normal c Map.empty)"
| "parse_noise_model normal (Mapping m) =
     (case m ''model_type'' of
        Some (Txt s) \<Rightarrow>
          (case name_class s of
             None \<Rightarrow> Inl ConfigurationError
           | Some c \<Rightarrow> new_NoiseModel normal c (m(''model_type'' := None)))
      | Some (Num _) \<Rightarrow> Inl ConfigurationError
      | Some (Fn _) \<Rightarrow> Inl ConfigurationError
      | Some (Sel _) \<Rightarrow> Inl ConfigurationError
      | None \<Rightarrow> Inl ConfigurationError)"
| "parse_noise_model normal Other = Inl ConfigurationError"

text \<open>
  A noise-model object of a class written by the caller, given by its two methods.
  \<^verbatim>\<open>NoiseModel\<close> is an abstract base class, so callers may subclass it, and an
  instance passes through the parser.
\<close>

record ('x, 'r) custom_noise =
  apply_method :: "'x \<Rightarrow> real \<Rightarrow> 'r \<Rightarrow> real \<times> 'r"
  get_noise_method :: "'x \<Rightarrow> real \<Rightarrow> 'r \<Rightarrow> real \<times> 'r"

section \<open>Concrete inputs\<close>

text \<open>
  The sampling function \<^verbatim>\<open>lambda: c\<close> of the tests: it returns \<open>c\<close> and draws
  nothing.
\<close>

definition const_sampler :: "real \<Rightarrow> 'r sampler" where
  "const_sampler c r = (c, r)"

text \<open>
  The selector \<^verbatim>\<open>lambda X: AdditiveNoise(noise_dist=lambda: X)\<close> of
  \<^verbatim>\<open>test_data_dependent_noise\<close>.
\<close>

definition echo_choice :: "real \<Rightarrow> (real, 'r) NoiseModel" where
  "echo_choice X = AdditiveNoise (const_sampler X)"

text \<open>A stand-in for the library's normal draw, which returns the mean.\<close>

definition mean_draw :: "real \<Rightarrow> real \<Rightarrow> 'r sampler" where
  "mean_draw mean spread r = (mean, r)"

text \<open>
  A stand-in for the space library over one-dimensional points. A space is described
  by its number of dimensions, the generator state is a counter, and \<open>lhs\<close> returns
  the next \<open>n\<close> values of the counter, so that two successive calls return different
  samples.
\<close>

definition counter_lib :: "(nat, nat, real, nat) space_lib" where
  "counter_lib =
     \<lparr>space_factory = Inr,
      n_dims = (\<lambda>sp. sp),
      lhs = (\<lambda>sp n r. (map (\<lambda>i. real (r + i)) [0..<n], r + n))\<rparr>"

definition identity_score :: "real \<Rightarrow> real" where
  "identity_score x = x"

definition negate :: "real \<Rightarrow> real" where
  "negate x = - x"

text \<open>
  The system that the constructor builds from \<open>identity_score\<close> over
  \<open>counter_lib\<close> when both bounds are left to be estimated and the counter starts
  at 1.
\<close>

definition estimated_system :: "(real, nat, (real, nat) NoiseModel) ModelSystem" where
  "estimated_system =
     \<lparr>score = identity_score, space = 1, noise_model = ZeroNoise,
      true_min = 1, true_max = 20\<rparr>"

text \<open>An \<^verbatim>\<open>expected_minimum\<close> that reports the location 0 and draws nothing.\<close>

definition at_origin :: "unit \<Rightarrow> nat \<Rightarrow> (real \<times> real) \<times> nat" where
  "at_origin result r = ((0, 0), r)"

text \<open>
  An \<^verbatim>\<open>expected_minimum\<close> that draws, as a search from random starting points
  does: it advances the generator by 20 and the location it reports depends on the
  generator state it starts from.
\<close>

definition drawing_minimum :: "unit \<Rightarrow> nat \<Rightarrow> (real \<times> real) \<times> nat" where
  "drawing_minimum result r = ((real r, 0), r + 20)"

text \<open>\<open>estimated_system\<close> after its Zero model is replaced by the default Additive one.\<close>

definition swapped_system :: "(real, nat, (real, nat) NoiseModel) ModelSystem" where
  "swapped_system = estimated_system\<lparr>noise_model := AdditiveNoise (mean_draw 0 1)\<rparr>"

text \<open>
  Two noise-model objects of caller-written classes. In \<open>shift_noise\<close> the two
  methods agree (\<open>apply\<close> adds what \<open>get_noise\<close> returns); in \<open>skewed_noise\<close>
  they do not.
\<close>

definition shift_noise :: "(real, unit) custom_noise" where
  "shift_noise =
     \<lparr>apply_method = (\<lambda>X Y r. (Y + 2, r)),
      get_noise_method = (\<lambda>X Y r. (2, r))\<rparr>"

definition skewed_noise :: "(real, unit) custom_noise" where
  "skewed_noise =
     \<lparr>apply_method = (\<lambda>X Y r. (Y, r)),
      get_noise_method = (\<lambda>X Y r. (1, r))\<rparr>"

definition custom_system ::
  "(real, unit) custom_noise \<Rightarrow> (real, unit, (real, unit) custom_noise) ModelSystem" where
  "custom_system nm =
     \<lparr>score = identity_score, space = (), noise_model = nm, true_min = 0, true_max = 10\<rparr>"

section \<open>Reductions over the sampled scores\<close>

lemma np_min_Min: "xs \<noteq> [] \<Longrightarrow> np_min xs = Inr (Min (set xs))"
proof (cases xs)
  case Nil
  assume "xs \<noteq> []"
  with Nil show ?thesis by simp
next
  case (Cons a list)
  have "Min (set (a # list)) = fold min list a"
    by (rule Min.set_eq_fold)
  with Cons show ?thesis
    by (simp add: np_min_def)
qed

lemma np_max_Max: "xs \<noteq> [] \<Longrightarrow> np_max xs = Inr (Max (set xs))"
proof (cases xs)
  case Nil
  assume "xs \<noteq> []"
  with Nil show ?thesis by simp
next
  case (Cons a list)
  have "Max (set (a # list)) = fold max list a"
    by (rule Max.set_eq_fold)
  with Cons show ?thesis
    by (simp add: np_max_def)
qed

text \<open>
  When the sampler returns no point (a space of no dimensions asks for
  \<open>0 * 10\<close> points), the estimate of \<^verbatim>\<open>true_min\<close> raises.
\<close>

lemma ModelSystem_init_empty_sample:
  assumes "space_factory lib space_def = Inr sp"
    and "parse nm_spec = Inr nm"
    and "lhs lib sp (n_dims lib sp * 10) r = ([], r')"
  shows "ModelSystem_init lib parse sc space_def nm_spec None tmax r = (Inl ValueError, r')"
  using assms by (simp add: ModelSystem_init_def np_min_def)

section \<open>Noisy evaluation\<close>

text \<open>
  Claim C1, as the code has it. \<^verbatim>\<open>get_score(X)\<close> evaluates the noiseless score
  \<open>Y\<close> at \<open>X\<close> and returns \<open>Y\<close> plus what the \<^verbatim>\<open>get_noise\<close> method of
  the current noise model returns for \<open>(X, Y)\<close>, leaving the generator as
  \<^verbatim>\<open>get_noise\<close> leaves it. The method \<^verbatim>\<open>apply\<close> is not called; the result
  equals \<^verbatim>\<open>apply(X, Y)\<close> for a noise model whose \<^verbatim>\<open>apply\<close> adds to \<open>Y\<close>
  what its \<^verbatim>\<open>get_noise\<close> returns.
\<close>

theorem get_score_adds_get_noise:
  "get_score gn ms X r =
     (score ms X + fst (gn (noise_model ms) X (score ms X) r),
      snd (gn (noise_model ms) X (score ms X) r))
   \<and> (ap (noise_model ms) X (score ms X) r =
         (score ms X + fst (gn (noise_model ms) X (score ms X) r),
          snd (gn (noise_model ms) X (score ms X) r))
       \<longrightarrow> get_score gn ms X r = ap (noise_model ms) X (score ms X) r)"
  by (simp add: get_score_def Let_def split: prod.splits)

text \<open>The statement at a noise model whose two methods agree.\<close>

theorem get_score_adds_get_noise_witness:
  "get_score get_noise_method (custom_system shift_noise) 3 () = (5, ())
   \<and> get_score get_noise_method (custom_system shift_noise) 3 ()
       = apply_method (noise_model (custom_system shift_noise)) 3
           (score (custom_system shift_noise) 3) ()"
  using get_score_adds_get_noise
    [of get_noise_method "custom_system shift_noise" 3 "()" apply_method]
  by (simp add: custom_system_def shift_noise_def identity_score_def)

text \<open>
  Claim C1 as it is written, \<^verbatim>\<open>get_score(X) == noise_model.apply(X, score(X))\<close>
  for every model system, fails at a noise model whose methods disagree: the source
  returns \<open>3 + 1\<close>, \<^verbatim>\<open>apply\<close> returns \<open>3\<close>.
\<close>

theorem get_score_apply_counterexample:
  "get_score get_noise_method (custom_system skewed_noise) 3 ()
     \<noteq> apply_method (noise_model (custom_system skewed_noise)) 3
          (score (custom_system skewed_noise) 3) ()"
  by (simp add: get_score_def custom_system_def skewed_noise_def identity_score_def)

section \<open>Loss of an optimisation result\<close>

text \<open>
  Claim C2. \<^verbatim>\<open>result_loss(result)\<close> is the noiseless score at the location that
  \<^verbatim>\<open>expected_minimum\<close> reports for the result, minus the stored
  \<^verbatim>\<open>true_min\<close>; no noise model takes part. The loss is negative exactly when the
  score at that location is below the stored \<^verbatim>\<open>true_min\<close>, and this happens:
  the bound estimated from the sample \<open>1, \<dots>, 10\<close> is 1, and the score at the
  reported location 0 is 0.
\<close>

theorem result_loss_signed:
  "result_loss em ms result r =
     (score ms (fst (fst (em result r))) - true_min ms, snd (em result r))
   \<and> (fst (result_loss em ms result r) < 0) =
       (score ms (fst (fst (em result r))) < true_min ms)
   \<and> ModelSystem_init counter_lib (parse_noise_model mean_draw) identity_score 1
        (Name ''zero'') None None 1
       = (Inr estimated_system, 21)
   \<and> result_loss at_origin estimated_system () 21 = (- 1, 21)"
proof -
  have general: "result_loss em ms result r =
     (score ms (fst (fst (em result r))) - true_min ms, snd (em result r))"
    by (simp add: result_loss_def Let_def split: prod.splits)
  have built: "ModelSystem_init counter_lib (parse_noise_model mean_draw) identity_score 1
        (Name ''zero'') None None 1
       = (Inr estimated_system, 21)"
    by (simp add: ModelSystem_init_def counter_lib_def name_class_def np_min_def np_max_def
        identity_score_def upt_rec estimated_system_def)
  have below: "result_loss at_origin estimated_system () 21 = (- 1, 21)"
    by (simp add: result_loss_def at_origin_def estimated_system_def identity_score_def)
  from general built below show ?thesis
    by simp
qed

section \<open>Parsing a noise specification\<close>

text \<open>
  Claim C3. \<^verbatim>\<open>parse_noise_model\<close> returns a noise model it is given unchanged;
  the names \<^verbatim>\<open>"constant"\<close>, \<^verbatim>\<open>"proportional"\<close> and \<^verbatim>\<open>"zero"\<close> give an
  Additive, a Multiplicative and a Zero model with default parameters; a mapping whose
  \<^verbatim>\<open>model_type\<close> is a recognised name constructs that variant from the
  remaining keys; an unrecognised name, a mapping whose \<^verbatim>\<open>model_type\<close> is
  unrecognised, absent or not a string, and every other shape fail with
  \<^verbatim>\<open>ConfigurationError\<close>.
\<close>

theorem parse_noise_model_shapes:
  "parse_noise_model normal (Instance nm) = Inr nm
   \<and> parse_noise_model normal (Name ''constant'') = Inr (AdditiveNoise (normal 0 1))
   \<and> parse_noise_model normal (Name ''proportional'')
       = Inr (MultiplicativeNoise (normal 0 (1 / 100)))
   \<and> parse_noise_model normal (Name ''zero'') = Inr ZeroNoise
   \<and> (m ''model_type'' = Some (Txt s) \<and> name_class s = Some c \<longrightarrow>
        parse_noise_model normal (Mapping m)
          = new_NoiseModel normal c (m(''model_type'' := None)))
   \<and> (t \<noteq> ''constant'' \<and> t \<noteq> ''proportional'' \<and> t \<noteq> ''zero'' \<longrightarrow>
        parse_noise_model normal (Name t) = Inl ConfigurationError
        \<and> (m' ''model_type'' = Some (Txt t) \<longrightarrow>
             parse_noise_model normal (Mapping m') = Inl ConfigurationError))
   \<and> ((\<forall>u. m'' ''model_type'' \<noteq> Some (Txt u)) \<longrightarrow>
        parse_noise_model normal (Mapping m'') = Inl ConfigurationError)
   \<and> parse_noise_model normal Other = Inl ConfigurationError"
  by (auto simp add: name_class_def split: option.splits kwarg.splits)

text \<open>
  The statement at the mapping \<^verbatim>\<open>{"model_type": "constant", "noise_size": 5}\<close>,
  at an unknown name, and at a mapping without \<^verbatim>\<open>model_type\<close>.
\<close>

theorem parse_noise_model_shapes_witness:
  "parse_noise_model mean_draw
      (Mapping [''model_type'' \<mapsto> Txt ''constant'', ''noise_size'' \<mapsto> Num 5])
     = (Inr (AdditiveNoise (mean_draw 0 5)) :: error + (real, nat) NoiseModel)
   \<and> parse_noise_model mean_draw (Name ''gaussian'')
     = (Inl ConfigurationError :: error + (real, nat) NoiseModel)
   \<and> parse_noise_model mean_draw (Mapping [''model_type'' \<mapsto> Txt ''gaussian''])
     = (Inl ConfigurationError :: error + (real, nat) NoiseModel)
   \<and> parse_noise_model mean_draw (Mapping [''noise_size'' \<mapsto> Num 5])
     = (Inl ConfigurationError :: error + (real, nat) NoiseModel)"
  using parse_noise_model_shapes
    [of mean_draw _ "[''model_type'' \<mapsto> Txt ''constant'', ''noise_size'' \<mapsto> Num 5]"
        "''constant''" AdditiveNoise_class "''gaussian''"
        "[''model_type'' \<mapsto> Txt ''gaussian'']" "[''noise_size'' \<mapsto> Num 5]"]
  by (simp add: name_class_def)

section \<open>Construction of a model system\<close>

text \<open>
  Claim C4. When the space and the noise specification are accepted, the constructor
  stores a bound the caller supplies as it is and samples nothing for it. A bound the
  caller leaves out is estimated: \<^verbatim>\<open>lhs\<close> is asked for \<open>n_dims * 10\<close> points,
  the noiseless score is evaluated at each, and \<^verbatim>\<open>true_min\<close> is the least,
  \<^verbatim>\<open>true_max\<close> the greatest of these scores. Each estimate has its own call of
  \<^verbatim>\<open>lhs\<close>, the second from the generator state the first leaves.
\<close>

theorem ModelSystem_init_bounds:
  assumes "space_factory lib space_def = Inr sp"
    and "parse nm_spec = Inr nm"
    and "lhs lib sp (n_dims lib sp * 10) r = (pts_lo, r_lo)"
    and "r_mid = (case tmin of None \<Rightarrow> r_lo | Some v \<Rightarrow> r)"
    and "lhs lib sp (n_dims lib sp * 10) r_mid = (pts_hi, r_hi)"
    and "tmin = None \<longrightarrow> pts_lo \<noteq> []"
    and "tmax = None \<longrightarrow> pts_hi \<noteq> []"
  shows "ModelSystem_init lib parse sc space_def nm_spec tmin tmax r =
           (Inr \<lparr>score = sc, space = sp, noise_model = nm,
                 true_min = (case tmin of None \<Rightarrow> Min (set (map sc pts_lo)) | Some v \<Rightarrow> v),
                 true_max = (case tmax of None \<Rightarrow> Max (set (map sc pts_hi)) | Some v \<Rightarrow> v)\<rparr>,
            (case tmax of None \<Rightarrow> r_hi | Some v \<Rightarrow> r_mid))"
proof -
  have lo: "tmin = None \<Longrightarrow> np_min (map sc pts_lo) = Inr (Min (set (map sc pts_lo)))"
    using assms(6) by (intro np_min_Min) simp
  have hi: "tmax = None \<Longrightarrow> np_max (map sc pts_hi) = Inr (Max (set (map sc pts_hi)))"
    using assms(7) by (intro np_max_Max) simp
  show ?thesis
  proof (cases tmin)
    case None
    note tmin_none = None
    with assms(4) have mid: "r_mid = r_lo" by simp
    show ?thesis
    proof (cases tmax)
      case None
      with tmin_none assms(1,2,3,5) mid lo hi show ?thesis
        by (simp add: ModelSystem_init_def Let_def)
    next
      case (Some v)
      with tmin_none assms(1,2,3) mid lo show ?thesis
        by (simp add: ModelSystem_init_def Let_def)
    qed
  next
    case (Some w)
    note tmin_some = Some
    with assms(4) have mid: "r_mid = r" by simp
    show ?thesis
    proof (cases tmax)
      case None
      with tmin_some assms(1,2,5) mid hi show ?thesis
        by (simp add: ModelSystem_init_def Let_def)
    next
      case (Some v)
      with tmin_some assms(1,2) mid show ?thesis
        by (simp add: ModelSystem_init_def Let_def)
    qed
  qed
qed

text \<open>
  The statement at a one-dimensional space, once with both bounds estimated (samples
  \<open>1, \<dots>, 10\<close> and \<open>11, \<dots>, 20\<close>) and once with \<^verbatim>\<open>true_min\<close> supplied.
\<close>

theorem ModelSystem_init_bounds_witness:
  "ModelSystem_init counter_lib (parse_noise_model mean_draw) identity_score 1 (Name ''zero'')
      None None 1
     = (Inr \<lparr>score = identity_score, space = 1, noise_model = ZeroNoise,
             true_min = 1, true_max = 20\<rparr>, 21)
   \<and> ModelSystem_init counter_lib (parse_noise_model mean_draw) identity_score 1 (Name ''zero'')
      (Some (- 2)) None 1
     = (Inr \<lparr>score = identity_score, space = 1, noise_model = ZeroNoise,
             true_min = - 2, true_max = 10\<rparr>, 11)"
proof -
  have sf: "space_factory counter_lib 1 = Inr 1"
    by (simp add: counter_lib_def)
  have ps: "parse_noise_model mean_draw (Name ''zero'')
              = (Inr ZeroNoise :: error + (real, nat) NoiseModel)"
    by (simp add: name_class_def)
  have a: "lhs counter_lib 1 (n_dims counter_lib 1 * 10) 1
             = ([1, 2, 3, 4, 5, 6, 7, 8, 9, 10], 11)"
    by (simp add: counter_lib_def upt_rec)
  have b: "lhs counter_lib 1 (n_dims counter_lib 1 * 10) 11
             = ([11, 12, 13, 14, 15, 16, 17, 18, 19, 20], 21)"
    by (simp add: counter_lib_def upt_rec)
  have one: "ModelSystem_init counter_lib (parse_noise_model mean_draw) identity_score 1
      (Name ''zero'') None None 1
     = (Inr \<lparr>score = identity_score, space = 1, noise_model = ZeroNoise,
             true_min = 1, true_max = 20\<rparr>, 21)"
    using ModelSystem_init_bounds
      [where lib = counter_lib and parse = "parse_noise_model mean_draw" and space_def = 1
         and nm_spec = "Name ''zero''" and sp = 1 and nm = ZeroNoise and r = 1
         and tmin = None and tmax = None and r_mid = 11 and sc = identity_score
         and pts_lo = "[1, 2, 3, 4, 5, 6, 7, 8, 9, 10]" and r_lo = 11
         and pts_hi = "[11, 12, 13, 14, 15, 16, 17, 18, 19, 20]" and r_hi = 21]
      sf ps a b
    by (simp add: identity_score_def name_class_def)
  have two: "ModelSystem_init counter_lib (parse_noise_model mean_draw) identity_score 1
      (Name ''zero'') (Some (- 2)) None 1
     = (Inr \<lparr>score = identity_score, space = 1, noise_model = ZeroNoise,
             true_min = - 2, true_max = 10\<rparr>, 11)"
    using ModelSystem_init_bounds
      [where lib = counter_lib and parse = "parse_noise_model mean_draw" and space_def = 1
         and nm_spec = "Name ''zero''" and sp = 1 and nm = ZeroNoise and r = 1
         and tmin = "Some (- 2)" and tmax = None and r_mid = 1 and sc = identity_score
         and pts_lo = "[1, 2, 3, 4, 5, 6, 7, 8, 9, 10]" and r_lo = 11
         and pts_hi = "[1, 2, 3, 4, 5, 6, 7, 8, 9, 10]" and r_hi = 11]
      sf ps a
    by (simp add: identity_score_def name_class_def)
  from one two show ?thesis by simp
qed

text \<open>
  Claim C9. The constructor neither establishes nor checks
  \<^verbatim>\<open>true_min <= true_max\<close>. With both bounds estimated, the two samples are drawn
  separately: for the score \<open>- x\<close> the first sample \<open>0, \<dots>, 9\<close> gives the minimum
  \<open>- 9\<close> and the second sample \<open>10, \<dots>, 19\<close> gives the maximum \<open>- 10\<close>.
  With both bounds supplied, 5 and 3 are stored as they are.
\<close>

theorem ModelSystem_init_bounds_unordered:
  "ModelSystem_init counter_lib (parse_noise_model mean_draw) negate 1 (Name ''zero'')
        None None 0
     = (Inr \<lparr>score = negate, space = 1, noise_model = ZeroNoise,
             true_min = - 9, true_max = - 10\<rparr>, 20)
   \<and> ModelSystem_init counter_lib (parse_noise_model mean_draw) negate 1 (Name ''zero'')
        (Some 5) (Some 3) 0
     = (Inr \<lparr>score = negate, space = 1, noise_model = ZeroNoise,
             true_min = 5, true_max = 3\<rparr>, 0)"
  by (simp add: ModelSystem_init_def counter_lib_def name_class_def np_min_def np_max_def
      negate_def upt_rec)

section \<open>Constructing noise models\<close>

text \<open>
  Claim C5. Constructing the abstract \<^verbatim>\<open>NoiseModel\<close> fails with
  \<^verbatim>\<open>InstantiationError\<close>, whatever the arguments; the Zero, Additive and
  Multiplicative variants are constructed from no arguments.
\<close>

theorem abstract_NoiseModel_fails:
  "new_NoiseModel normal NoiseModel_class kw = Inl InstantiationError
   \<and> new_NoiseModel normal ZeroNoise_class Map.empty = Inr ZeroNoise
   \<and> new_NoiseModel normal AdditiveNoise_class Map.empty = Inr (AdditiveNoise (normal 0 1))
   \<and> new_NoiseModel normal MultiplicativeNoise_class Map.empty
       = Inr (MultiplicativeNoise (normal 0 (1 / 100)))"
  by simp

section \<open>Replacing the noise model\<close>

text \<open>
  Claim C6. \<^verbatim>\<open>set_noise_model(spec)\<close> parses the specification and stores the
  result as the noise model; the score function, the space, \<^verbatim>\<open>true_min\<close> and
  \<^verbatim>\<open>true_max\<close> are what they were, and nothing is sampled. When parsing fails,
  the error is raised before anything is stored.
\<close>

theorem set_noise_model_frame:
  "(parse nm_spec = Inr nm \<longrightarrow>
      (\<exists>ms'. set_noise_model parse nm_spec ms = Inr ms'
         \<and> noise_model ms' = nm
         \<and> score ms' = score ms \<and> space ms' = space ms
         \<and> true_min ms' = true_min ms \<and> true_max ms' = true_max ms))
   \<and> (parse nm_spec = Inl e \<longrightarrow> set_noise_model parse nm_spec ms = Inl e)"
  by (simp add: set_noise_model_def)

text \<open>The statement at the name \<^verbatim>\<open>"constant"\<close> and at a specification of another shape.\<close>

theorem set_noise_model_frame_witness:
  "(\<exists>ms'. set_noise_model (parse_noise_model mean_draw) (Name ''constant'') estimated_system
             = Inr ms'
      \<and> noise_model ms' = AdditiveNoise (mean_draw 0 1)
      \<and> score ms' = identity_score \<and> space ms' = 1
      \<and> true_min ms' = 1 \<and> true_max ms' = 20)
   \<and> set_noise_model (parse_noise_model mean_draw) Other estimated_system
       = Inl ConfigurationError"
  using set_noise_model_frame
      [of "parse_noise_model mean_draw" "Name ''constant''" "AdditiveNoise (mean_draw 0 1)"
          estimated_system]
    set_noise_model_frame
      [of "parse_noise_model mean_draw" Other _ estimated_system ConfigurationError]
  by (simp add: name_class_def estimated_system_def)

text \<open>
  Claim C10, as the code has it. The loss does not depend on the noise model: started
  from the same generator state, two runs of \<^verbatim>\<open>result_loss\<close> on the same result
  that differ only in the noise model stored, also before and after
  \<^verbatim>\<open>set_noise_model\<close>, return the same loss. \<^verbatim>\<open>result_loss\<close> draws nothing
  of its own: it leaves the generator as \<^verbatim>\<open>expected_minimum\<close> leaves it.
\<close>

theorem result_loss_ignores_noise_model:
  "result_loss em (ms\<lparr>noise_model := nm\<rparr>) result r = result_loss em ms result r
   \<and> (set_noise_model parse nm_spec ms = Inr ms' \<longrightarrow>
        result_loss em ms' result r = result_loss em ms result r)
   \<and> snd (result_loss em ms result r) = snd (em result r)"
  by (auto simp add: result_loss_def set_noise_model_def Let_def split: sum.splits prod.splits)

text \<open>The statement at a system whose Zero model is replaced by an Additive one.\<close>

theorem result_loss_ignores_noise_model_witness:
  "set_noise_model (parse_noise_model mean_draw) (Name ''constant'') estimated_system
     = Inr (estimated_system\<lparr>noise_model := AdditiveNoise (mean_draw 0 1)\<rparr>)
   \<and> result_loss at_origin (estimated_system\<lparr>noise_model := AdditiveNoise (mean_draw 0 1)\<rparr>) () 21
     = result_loss at_origin estimated_system () 21"
  using result_loss_ignores_noise_model
    [where em = at_origin and ms = estimated_system and result = "()" and r = 21
       and parse = "parse_noise_model mean_draw" and nm_spec = "Name ''constant''"
       and nm = "AdditiveNoise (mean_draw 0 1)"
       and ms' = "estimated_system\<lparr>noise_model := AdditiveNoise (mean_draw 0 1)\<rparr>"]
  by (simp add: set_noise_model_def name_class_def)

text \<open>
  Claim C10 as it is written, that \<^verbatim>\<open>result_loss\<close> consumes no randomness and
  that a run before and a run after \<^verbatim>\<open>set_noise_model\<close> return the same value,
  fails when \<^verbatim>\<open>expected_minimum\<close> draws: the first run moves the generator from
  21 to 41 and returns 20, and the run after the swap, from 41, returns 40.
\<close>

theorem result_loss_randomness_counterexample:
  "result_loss drawing_minimum estimated_system () 21 = (20, 41)
   \<and> snd (result_loss drawing_minimum estimated_system () 21) \<noteq> 21
   \<and> set_noise_model (parse_noise_model mean_draw) (Name ''constant'') estimated_system
       = Inr swapped_system
   \<and> result_loss drawing_minimum swapped_system () 41 = (40, 61)
   \<and> fst (result_loss drawing_minimum swapped_system
              () (snd (result_loss drawing_minimum estimated_system () 21)))
       \<noteq> fst (result_loss drawing_minimum estimated_system () 21)"
  by (simp add: result_loss_def drawing_minimum_def estimated_system_def swapped_system_def
      set_noise_model_def name_class_def identity_score_def)

section \<open>Applying noise\<close>

text \<open>
  Claim C7. A Multiplicative model whose sampling function always returns \<open>m\<close> maps
  every signal \<open>s\<close>, in every context, to \<open>s * (1 + m)\<close>.
\<close>

theorem multiplicative_constant_sampler:
  "(\<forall>r. fst (sample r) = m) \<Longrightarrow>
     fst (NoiseModel_apply (MultiplicativeNoise sample) X s r) = s * (1 + m)"
  by (simp add: split_beta)

text \<open>The statement at the sampling function \<^verbatim>\<open>lambda: 2\<close> and the signal 7.\<close>

theorem multiplicative_constant_sampler_witness:
  "(\<forall>r::nat. fst (const_sampler 2 r) = 2)
   \<and> fst (NoiseModel_apply (MultiplicativeNoise (const_sampler 2)) () 7 (0::nat)) = 21"
  using multiplicative_constant_sampler [of "const_sampler 2" 2 "()" 7 "0::nat"]
  by (simp add: const_sampler_def)

text \<open>
  Claim C8. A DataDependent model calls its selector on the context of each
  \<^verbatim>\<open>apply\<close> and delegates that call to the model returned; with the selector
  \<^verbatim>\<open>lambda X: AdditiveNoise(noise_dist=lambda: X)\<close> the result for a scalar
  context \<open>Z\<close> and a signal \<open>s\<close> is \<open>s + Z\<close>.
\<close>

theorem data_dependent_delegates:
  "NoiseModel_apply (DataDependentNoise selector) X s r = NoiseModel_apply (selector X) X s r
   \<and> NoiseModel_apply (DataDependentNoise echo_choice) Z s r = (s + Z, r)"
  by (simp add: echo_choice_def const_sampler_def)

end
